theory Spec2Isabelle
  imports Main "HOL-Library.AList"
begin

section \<open>Python values, runtime types and exceptions\<close>

text \<open>
  The wrapper of \<^verbatim>\<open>vertex_model/base.py\<close> inspects the runtime type of every bound
  argument (\<^verbatim>\<open>type(parameter)\<close>), so values carry a tag from which the type is read.
  A float is a finite binary fraction (mantissa, exponent); a data frame is its column names
  and its rows. Neither content is ever inspected by the code modelled here.
  \<open>VObject q\<close> is an instance of any other class, \<open>q\<close> being the qualified class name.
  \<^verbatim>\<open>type(True)\<close> is \<^verbatim>\<open>bool\<close>, a type of its own: membership of a type in a list of
  types compares type objects, so a \<^verbatim>\<open>bool\<close> is not an \<^verbatim>\<open>int\<close> there.
\<close>

type_synonym pyfloat = "int \<times> int"

datatype dataframe = DataFrame (columns: "string list") (rows: "pyfloat list list")

datatype pytype = TInt | TFloat | TStr | TDataFrame | TBool | TNoneType | TList | TClass string

datatype pyval =
    VNone
  | VBool bool
  | VInt int
  | VFloat pyfloat
  | VStr string
  | VDataFrame dataframe
  | VList "pyval list"
  | VObject string

fun type_of :: "pyval \<Rightarrow> pytype" where
  "type_of VNone = TNoneType"
| "type_of (VBool b) = TBool"
| "type_of (VInt i) = TInt"
| "type_of (VFloat x) = TFloat"
| "type_of (VStr s) = TStr"
| "type_of (VDataFrame d) = TDataFrame"
| "type_of (VList xs) = TList"
| "type_of (VObject q) = TClass q"

text \<open>What an f-string prints for a type object, and for a list of type objects.\<close>

fun qualname :: "pytype \<Rightarrow> string" where
  "qualname TInt = ''int''"
| "qualname TFloat = ''float''"
| "qualname TStr = ''str''"
| "qualname TDataFrame = ''pandas.core.frame.DataFrame''"
| "qualname TBool = ''bool''"
| "qualname TNoneType = ''NoneType''"
| "qualname TList = ''list''"
| "qualname (TClass q) = q"

definition quoted :: "string \<Rightarrow> string" where
  "quoted s = [CHR 0x27] @ s @ [CHR 0x27]"

definition str_type :: "pytype \<Rightarrow> string" where
  "str_type t = ''<class '' @ quoted (qualname t) @ ''>''"

fun join :: "string \<Rightarrow> string list \<Rightarrow> string" where
  "join sep [] = ''''"
| "join sep [x] = x"
| "join sep (x # y # ys) = x @ sep @ join sep (y # ys)"

definition str_type_list :: "pytype list \<Rightarrow> string" where
  "str_type_list ts = ''['' @ join '', '' (map str_type ts) @ '']''"

text \<open>
  Exceptions are values. \<open>OtherError c m\<close> is an exception of a class \<open>c\<close> that derives
  from neither \<^verbatim>\<open>ValueError\<close> nor \<^verbatim>\<open>RuntimeError\<close> (an \<^verbatim>\<open>OSError\<close>, a storage
  client error); an instance of a subclass of one of those two is kept under its base class,
  which is all an \<^verbatim>\<open>except\<close> clause looks at. \<open>str_exn\<close> is \<^verbatim>\<open>str(err)\<close>.
\<close>

datatype exn =
    RuntimeError string
  | ValueError string
  | TypeError string
  | KeyError string
  | UnboundLocalError string
  | OtherError string string

fun str_exn :: "exn \<Rightarrow> string" where
  "str_exn (RuntimeError m) = m"
| "str_exn (ValueError m) = m"
| "str_exn (TypeError m) = m"
| "str_exn (KeyError m) = m"
| "str_exn (UnboundLocalError m) = m"
| "str_exn (OtherError c m) = m"

section \<open>The model instance and the world around it\<close>

text \<open>
  A training job is the keyword arguments \<^verbatim>\<open>aiplatform.CustomTrainingJob\<close> was constructed
  with. The registry \<^verbatim>\<open>_data_serialization_mapping\<close> is a dict from a type to the pair
  (deserializer, serializer); a dict keeps insertion order, which shows in the error message,
  so it is an association list (with distinct keys, as a dict has). A serializer takes the
  artifact folder, the value and the parameter name; it returns the location it wrote to,
  or raises.
\<close>

record training_job =
  display_name :: string
  script_path :: string
  requirements :: "string list"
  container_uri :: string

type_synonym deserializer = "string \<Rightarrow> pyval"
type_synonym serializer = "string \<Rightarrow> pyval \<Rightarrow> string \<Rightarrow> exn + string"
type_synonym registry = "(pytype \<times> (deserializer \<times> serializer)) list"

record vertex_model =
  cls_name :: string
  training_mode :: string
  data_serialization_mapping :: registry
  training_job_attr :: "training_job option"

text \<open>
  Every call the wrapper makes to a collaborator that prints, writes a file, stores an
  artifact or talks to the training service is appended to a log when it is made, in the
  order of the source, whether the call then returns or raises. The two entries for the
  temporary directory mark the entry into its \<^verbatim>\<open>with\<close> block and the exit from it.
  Pure helpers (reading the class source, rendering the script text, binding the arguments
  to the signature) are not logged.
\<close>

datatype call =
    Print string
  | Serializer_call string pyval string
  | Logger_info string
  | TemporaryDirectory_enter string
  | File_write string string
  | CustomTrainingJob_init training_job
  | CustomTrainingJob_run training_job nat
  | TemporaryDirectory_exit string

record world =
  obj :: vertex_model
  staging_bucket :: "string option"
  calls :: "call list"

text \<open>
  What the wrapper takes from outside \<^verbatim>\<open>base.py\<close>: the two helpers of
  \<^verbatim>\<open>source_utils\<close>, \<^verbatim>\<open>inspect.signature(method).bind\<close> (which raises a
  \<^verbatim>\<open>TypeError\<close> when the arguments do not fit the signature, and otherwise returns the
  arguments by parameter name, in the order of the parameters), the method's name, the clock
  reading already formatted, and the collaborators of lines 130 to 157, each of which may
  raise: \<open>mkdtemp\<close> is \<^verbatim>\<open>tempfile.TemporaryDirectory()\<close> and gives the directory's name,
  \<open>make_source\<close> renders the script, \<open>write_file\<close> is the \<^verbatim>\<open>open\<close> of the script file
  and the \<^verbatim>\<open>write\<close> into it, \<open>construct_job\<close> is
  \<^verbatim>\<open>aiplatform.CustomTrainingJob(...)\<close> and \<open>run_job\<close> is its \<^verbatim>\<open>run\<close>. For the last
  three the value is the exception raised, \<open>None\<close> when the call returns. The source
  catches nothing: an exception of a collaborator ends the call and reaches the caller as
  it is. \<^verbatim>\<open>print\<close>, the logger and the clock are taken to return.
\<close>

record env =
  make_class_source :: "vertex_model \<Rightarrow> string"
  make_source :: "string \<Rightarrow> string \<Rightarrow> string \<Rightarrow> (string \<times> pyval) list
                    \<Rightarrow> (string \<times> (string \<times> pytype)) list \<Rightarrow> vertex_model \<Rightarrow> exn + string"
  signature_bind :: "pyval list \<Rightarrow> (string \<times> pyval) list \<Rightarrow> exn + (string \<times> pyval) list"
  method_name :: string
  now_isoformat :: string
  mkdtemp :: "exn + string"
  write_file :: "string \<Rightarrow> string \<Rightarrow> exn option"
  construct_job :: "training_job \<Rightarrow> exn option"
  run_job :: "training_job \<Rightarrow> nat \<Rightarrow> exn option"

type_synonym 'a result = "(exn + 'a) \<times> world"
type_synonym fit_method = "pyval list \<Rightarrow> (string \<times> pyval) list \<Rightarrow> world \<Rightarrow> pyval result"

section \<open>\<^verbatim>\<open>vertex_fit_function_wrapper\<close>\<close>

subsection \<open>Validating and splitting the bound arguments (lines 79 to 95)\<close>

definition valid_types :: "registry \<Rightarrow> pytype list" where
  "valid_types reg = [TInt, TFloat, TStr] @ map fst reg"

definition unsupported_message :: "registry \<Rightarrow> pytype \<Rightarrow> string \<Rightarrow> string" where
  "unsupported_message reg parameter_type parameter_name =
     str_type parameter_type @ '' not supported. parameter_name = '' @ parameter_name
     @ ''. The only supported types are '' @ str_type_list (valid_types reg)"

text \<open>
  The loop over \<^verbatim>\<open>bound_args.arguments.items()\<close>, with the two dicts it fills as
  accumulators: the first argument whose type is not listed raises; an argument of a
  registered type goes to \<^verbatim>\<open>serialized_params\<close>, any other to
  \<^verbatim>\<open>pass_through_params\<close>.
\<close>

fun split_params :: "registry \<Rightarrow> (string \<times> pyval) list \<Rightarrow> (string \<times> pyval) list
    \<Rightarrow> (string \<times> pyval) list \<Rightarrow> exn + ((string \<times> pyval) list \<times> (string \<times> pyval) list)" where
  "split_params reg [] pass_through_params serialized_params =
     Inr (pass_through_params, serialized_params)"
| "split_params reg ((parameter_name, parameter) # rest) pass_through_params serialized_params =
     (if type_of parameter \<notin> set (valid_types reg)
      then Inl (RuntimeError (unsupported_message reg (type_of parameter) parameter_name))
      else if type_of parameter \<in> set (map fst reg)
      then split_params reg rest pass_through_params
             (AList.update parameter_name parameter serialized_params)
      else split_params reg rest
             (AList.update parameter_name parameter pass_through_params) serialized_params)"

subsection \<open>Serializing the complex arguments (lines 108 to 128)\<close>

text \<open>
  The loop over \<^verbatim>\<open>serialized_params.items()\<close>. A serializer that raises ends the loop
  with its exception. The log line is formatted with the variable \<^verbatim>\<open>parameter_type\<close>
  that the first loop left behind, that is the type of the last bound argument; \<open>None\<close>
  stands for the variable never having been assigned. Looking a type up in the registry
  raises \<^verbatim>\<open>KeyError\<close> when it is missing.
\<close>

definition serialized_message :: "string \<Rightarrow> pytype \<Rightarrow> string \<Rightarrow> string" where
  "serialized_message parameter_name parameter_type parameter_uri =
     parameter_name @ '' of type '' @ str_type parameter_type
     @ '' was serialized to '' @ parameter_uri"

fun serialize_params :: "registry \<Rightarrow> string \<Rightarrow> pytype option \<Rightarrow> (string \<times> pyval) list
    \<Rightarrow> (string \<times> (string \<times> pytype)) list \<Rightarrow> call list
    \<Rightarrow> (exn + (string \<times> (string \<times> pytype)) list) \<times> call list" where
  "serialize_params reg folder parameter_type [] info log = (Inr info, log)"
| "serialize_params reg folder parameter_type ((parameter_name, parameter) # rest) info log =
     (case map_of reg (type_of parameter) of
        None \<Rightarrow> (Inl (KeyError (str_type (type_of parameter))), log)
      | Some (deserializer, serializer) \<Rightarrow>
          (let log1 = log @ [Serializer_call folder parameter parameter_name]
           in case serializer folder parameter parameter_name of
                Inl e \<Rightarrow> (Inl e, log1)
              | Inr parameter_uri \<Rightarrow>
                  (let info1 = AList.update parameter_name (parameter_uri, type_of parameter) info
                   in case parameter_type of
                        None \<Rightarrow> (Inl (UnboundLocalError ''parameter_type''), log1)
                      | Some t \<Rightarrow>
                          serialize_params reg folder parameter_type rest info1
                            (log1 @ [Logger_info
                                       (serialized_message parameter_name t parameter_uri)]))))"

subsection \<open>The remote path (lines 68 to 157) and the wrapper\<close>

definition staging_bucket_message :: string where
  "staging_bucket_message =
     ''Staging bucket must be set to run training in cloud mode: `aiplatform.init(staging_bucket='gs://my/staging/bucket')`''"

definition new_training_job :: "string \<Rightarrow> training_job" where
  "new_training_job path =
     \<lparr> display_name = ''my_training_job'',
       script_path = path,
       requirements = [''pandas>=1.3''],
       container_uri = ''us-docker.pkg.dev/vertex-ai/training/pytorch-xla.1-7:latest'' \<rparr>"

text \<open>
  Lines 130 to 157, the body of \<^verbatim>\<open>with tempfile.TemporaryDirectory() as tmpdirname\<close>, from
  the log \<open>log1\<close> the serializers left: the script is rendered, the script file is opened and
  written, and inside the \<^verbatim>\<open>with open\<close> block the job is constructed, assigned to
  \<^verbatim>\<open>obj._training_job\<close> and run with one replica. An exception at any of these steps
  leaves the blocks, which removes the temporary directory, and reaches the caller; the
  assignment to \<^verbatim>\<open>obj._training_job\<close> stays when it is the run that raises. The function
  falls off its end, so what it returns is \<^verbatim>\<open>None\<close>.
\<close>

definition train_in_tempdir :: "env \<Rightarrow> string \<Rightarrow> (string \<times> pyval) list
    \<Rightarrow> (string \<times> (string \<times> pytype)) list \<Rightarrow> call list \<Rightarrow> world \<Rightarrow> pyval result" where
  "train_in_tempdir env training_source pass_through_params param_name_to_serialized_info log1 w =
     (case mkdtemp env of
        Inl e \<Rightarrow> (Inl e, w\<lparr>calls := log1\<rparr>)
      | Inr tmpdirname \<Rightarrow>
          (let path = tmpdirname @ ''/training_script.py'';
               log2 = log1 @ [TemporaryDirectory_enter tmpdirname]
           in case make_source env training_source (cls_name (obj w)) (method_name env)
                     pass_through_params param_name_to_serialized_info (obj w) of
                Inl e \<Rightarrow> (Inl e, w\<lparr>calls := log2 @ [TemporaryDirectory_exit tmpdirname]\<rparr>)
              | Inr source \<Rightarrow>
                  (let log3 = log2 @ [File_write path source]
                   in case write_file env path source of
                        Some e \<Rightarrow> (Inl e, w\<lparr>calls := log3 @ [TemporaryDirectory_exit tmpdirname]\<rparr>)
                      | None \<Rightarrow>
                          (let job = new_training_job path;
                               log4 = log3 @ [CustomTrainingJob_init job]
                           in case construct_job env job of
                                Some e \<Rightarrow>
                                  (Inl e, w\<lparr>calls := log4 @ [TemporaryDirectory_exit tmpdirname]\<rparr>)
                              | None \<Rightarrow>
                                  (let w1 = w\<lparr>obj := (obj w)\<lparr>training_job_attr := Some job\<rparr>\<rparr>;
                                       log5 = log4 @ [CustomTrainingJob_run job 1,
                                                      TemporaryDirectory_exit tmpdirname]
                                   in case run_job env job 1 of
                                        Some e \<Rightarrow> (Inl e, w1\<lparr>calls := log5\<rparr>)
                                      | None \<Rightarrow> (Inr VNone, w1\<lparr>calls := log5\<rparr>))))))"

text \<open>
  Lines 103 to 157, once the arguments are split and the staging bucket is known: the run
  folder, the serializers, then the temporary directory and what happens inside it.
\<close>

definition submit_job :: "env \<Rightarrow> string \<Rightarrow> (string \<times> pyval) list \<Rightarrow> (string \<times> pyval) list
    \<Rightarrow> (string \<times> pyval) list \<Rightarrow> string \<Rightarrow> world \<Rightarrow> pyval result" where
  "submit_job env training_source bound pass_through_params serialized_params bucket w =
     (let timestamp = now_isoformat env;
          vertex_model_root_folder = join ''/'' [bucket, ''vertex_model_run_'' @ timestamp];
          serialized_inputs_artifacts_folder =
            join ''/'' [vertex_model_root_folder, ''serialized_input_parameters''];
          log0 = calls w @ [Print serialized_inputs_artifacts_folder];
          parameter_type = (if bound = [] then None else Some (type_of (snd (last bound))))
      in case serialize_params (data_serialization_mapping (obj w))
                serialized_inputs_artifacts_folder parameter_type serialized_params [] log0 of
           (Inl e, log1) \<Rightarrow> (Inl e, w\<lparr>calls := log1\<rparr>)
         | (Inr param_name_to_serialized_info, log1) \<Rightarrow>
             train_in_tempdir env training_source pass_through_params
               param_name_to_serialized_info log1 w)"

definition remote_dispatch :: "env \<Rightarrow> pyval list \<Rightarrow> (string \<times> pyval) list \<Rightarrow> world \<Rightarrow> pyval result" where
  "remote_dispatch env args kwargs w =
     (let training_source = make_class_source env (obj w)
      in case signature_bind env args kwargs of
           Inl e \<Rightarrow> (Inl e, w)
         | Inr bound \<Rightarrow>
             (case split_params (data_serialization_mapping (obj w)) bound [] [] of
                Inl e \<Rightarrow> (Inl e, w)
              | Inr (pass_through_params, serialized_params) \<Rightarrow>
                  (case staging_bucket w of
                     None \<Rightarrow> (Inl (RuntimeError staging_bucket_message), w)
                   | Some bucket \<Rightarrow>
                       submit_job env training_source bound pass_through_params
                         serialized_params bucket w)))"

text \<open>
  The function \<^verbatim>\<open>f\<close> that \<^verbatim>\<open>vertex_fit_function_wrapper(method)\<close> returns. The user's
  method is any function of the arguments and the world: it may raise, and it may change
  the instance or call the platform itself.
\<close>

definition vertex_fit_function_wrapper :: "env \<Rightarrow> fit_method \<Rightarrow> fit_method" where
  "vertex_fit_function_wrapper env method args kwargs w =
     (if training_mode (obj w) = ''local'' then method args kwargs w
      else remote_dispatch env args kwargs w)"

text \<open>
  \<^verbatim>\<open>VertexModel.__init__\<close>: a new instance trains locally, and its registry is the class
  attribute with the one entry for \<^verbatim>\<open>pd.DataFrame\<close> (the two functions are those of the
  \<^verbatim>\<open>serializers.pandas\<close> module).
\<close>

definition VertexModel_init :: "string \<Rightarrow> deserializer \<Rightarrow> serializer \<Rightarrow> vertex_model" where
  "VertexModel_init name deserialize_dataframe serialize_dataframe =
     \<lparr> cls_name = name,
       training_mode = ''local'',
       data_serialization_mapping = [(TDataFrame, (deserialize_dataframe, serialize_dataframe))],
       training_job_attr = None \<rparr>"

text \<open>The job constructions and the job runs among a sequence of logged calls.\<close>

fun constructed :: "call \<Rightarrow> training_job list" where
  "constructed (CustomTrainingJob_init j) = [j]"
| "constructed c = []"

fun started :: "call \<Rightarrow> (training_job \<times> nat) list" where
  "started (CustomTrainingJob_run j replica_count) = [(j, replica_count)]"
| "started c = []"

definition jobs_constructed :: "call list \<Rightarrow> training_job list" where
  "jobs_constructed cs = concat (map constructed cs)"

definition jobs_run :: "call list \<Rightarrow> (training_job \<times> nat) list" where
  "jobs_run cs = concat (map started cs)"

section \<open>\<^verbatim>\<open>serializers/model.py\<close>\<close>

text \<open>
  The two functions of this module only call libraries: \<^verbatim>\<open>torch.jit\<close>, \<^verbatim>\<open>tempfile\<close>,
  the storage client and \<^verbatim>\<open>utils.extract_bucket_and_prefix_from_gcs_path\<close>. These are
  parameters, acting on a world \<open>'w\<close> (file system, object store, console) that the model
  threads through in the order of the source; each call that can raise returns the
  exception or its value, with the world it left. \<open>'m\<close> is a \<^verbatim>\<open>torch.nn.Module\<close>, \<open>'c\<close>
  a compiled one. Building the client, the bucket handle and the blob handle changes
  nothing in the world, but each of the three may raise: \<open>storage_Client\<close> and
  \<open>bucket_blob\<close> give the exception raised (\<open>None\<close> when the call returns), and
  \<open>client_bucket\<close> gives the exception or the \<^verbatim>\<open>name\<close> of the handle it returns. A blob
  handle keeps the name it was made with. Paths are joined as text, which is what
  \<^verbatim>\<open>pathlib\<close> does for a directory name and a file name without empty or dot components.
\<close>

record ('m, 'c, 'w) torch_env =
  jit_script :: "'m \<Rightarrow> exn + 'c"
  jit_save :: "'c \<Rightarrow> string \<Rightarrow> 'w \<Rightarrow> (exn + unit) \<times> 'w"
  jit_load :: "string \<Rightarrow> 'w \<Rightarrow> (exn + 'c) \<times> 'w"
  TemporaryDirectory :: "'w \<Rightarrow> string \<times> 'w"
  cleanup :: "string \<Rightarrow> 'w \<Rightarrow> 'w"
  print_line :: "string \<Rightarrow> 'w \<Rightarrow> 'w"
  extract_bucket_and_prefix_from_gcs_path :: "string \<Rightarrow> string \<times> string option"
  storage_Client :: "exn option"
  client_bucket :: "string \<Rightarrow> exn + string"
  bucket_blob :: "string \<Rightarrow> string option \<Rightarrow> exn option"
  upload_from_filename :: "string \<Rightarrow> string \<Rightarrow> string \<Rightarrow> 'w \<Rightarrow> (exn + unit) \<times> 'w"
  download_to_filename :: "string \<Rightarrow> string option \<Rightarrow> string \<Rightarrow> 'w \<Rightarrow> (exn + unit) \<times> 'w"

text \<open>\<^verbatim>\<open>path.name\<close>: the text after the last separator.\<close>

definition path_name :: "string \<Rightarrow> string" where
  "path_name p = rev (takeWhile (\<lambda>c. c \<noteq> CHR ''/'') (rev p))"

text \<open>
  Lines 54 to 79 of \<^verbatim>\<open>_serialize_local_model\<close>, inside the temporary directory and after
  the model is saved there: the location is split, the client, the bucket handle and the
  blob handle are built, the file is uploaded, and the object's path is put together from
  the names the handles give. \<^verbatim>\<open>if gcs_blob_prefix\<close> is false for \<^verbatim>\<open>None\<close> and for the
  empty string. The caller removes the temporary directory, whatever the outcome.
\<close>

definition upload_saved_model ::
    "('m, 'c, 'w) torch_env \<Rightarrow> string \<Rightarrow> string \<Rightarrow> 'w \<Rightarrow> (exn + string) \<times> 'w" where
  "upload_saved_model te artifact_uri path_to_model w3 =
     (let (gcs_bucket, gcs_blob_prefix) = extract_bucket_and_prefix_from_gcs_path te artifact_uri;
          local_file_name = path_name path_to_model;
          blob_path =
            (case gcs_blob_prefix of
               None \<Rightarrow> local_file_name
             | Some prefix \<Rightarrow>
                 if prefix = [] then local_file_name else join ''/'' [prefix, local_file_name])
      in case storage_Client te of
           Some e \<Rightarrow> (Inl e, w3)
         | None \<Rightarrow>
             (case client_bucket te gcs_bucket of
                Inl e \<Rightarrow> (Inl e, w3)
              | Inr bucket \<Rightarrow>
                  (case bucket_blob te bucket (Some blob_path) of
                     Some e \<Rightarrow> (Inl e, w3)
                   | None \<Rightarrow>
                       (case upload_from_filename te bucket blob_path path_to_model w3 of
                          (Inl e, w4) \<Rightarrow> (Inl e, w4)
                        | (Inr u, w4) \<Rightarrow>
                            (let w5 = print_line te bucket w4;
                                 w6 = print_line te ''uploaded model to gcs'' w5;
                                 gcs_path = ''gs://'' @ join ''/'' [bucket, blob_path];
                                 w7 = print_line te (''model was written to:  '' @ gcs_path) w6
                             in (Inr gcs_path, w7))))))"

text \<open>
  \<^verbatim>\<open>_serialize_local_model(artifact_uri, obj, model_type)\<close>. The slice
  \<^verbatim>\<open>artifact_uri[0:6]\<close> is \<open>take 6 artifact_uri\<close>. Leaving the \<^verbatim>\<open>with\<close> block, by its end
  or by an exception, removes the temporary directory.
\<close>

definition serialize_local_model ::
    "('m, 'c, 'w) torch_env \<Rightarrow> string \<Rightarrow> 'm \<Rightarrow> string \<Rightarrow> 'w \<Rightarrow> (exn + string) \<times> 'w" where
  "serialize_local_model te artifact_uri module model_type w =
     (case jit_script te module of
        Inl e \<Rightarrow> (Inl e, w)
      | Inr compiled_custom_model \<Rightarrow>
          if take 6 artifact_uri \<noteq> ''gs://'' then
            (let path_to_model = artifact_uri @ ''/my_'' @ model_type @ ''_model.pth''
             in case jit_save te compiled_custom_model path_to_model w of
                  (Inl e, w1) \<Rightarrow> (Inl e, w1)
                | (Inr u, w1) \<Rightarrow> (Inr path_to_model, w1))
          else
            (case TemporaryDirectory te w of
               (tmpdir, w1) \<Rightarrow>
                 (let path_to_model = tmpdir @ ''/'' @ (''my_'' @ model_type @ ''_model.pth'')
                  in case jit_save te compiled_custom_model path_to_model w1 of
                       (Inl e, w2) \<Rightarrow> (Inl e, cleanup te tmpdir w2)
                     | (Inr u, w2) \<Rightarrow>
                         (let w3 = print_line te ''saved model locally'' w2
                          in case upload_saved_model te artifact_uri path_to_model w3 of
                               (r, w8) \<Rightarrow> (r, cleanup te tmpdir w8)))))"

text \<open>
  \<^verbatim>\<open>_deserialize_remote_model(artifact_uri)\<close>. The load of a local path is outside any
  \<^verbatim>\<open>try\<close>, and so are the split of the location and the building of the client, the
  bucket handle and the blob handle (lines 99 to 107): what they raise reaches the caller
  as it is. The \<^verbatim>\<open>try\<close> block covers the temporary directory, the download and the
  load; its handler catches \<^verbatim>\<open>ValueError\<close> and \<^verbatim>\<open>RuntimeError\<close> only, and raises a
  \<^verbatim>\<open>RuntimeError\<close> made of the location and the error's text.
\<close>

definition read_problem_message :: "string \<Rightarrow> exn \<Rightarrow> string" where
  "read_problem_message artifact_uri err =
     ''There was a problem reading the model at '' @ quoted artifact_uri @ '': '' @ str_exn err"

fun reading_handler :: "string \<Rightarrow> exn \<Rightarrow> exn" where
  "reading_handler artifact_uri (ValueError m) =
     RuntimeError (read_problem_message artifact_uri (ValueError m))"
| "reading_handler artifact_uri (RuntimeError m) =
     RuntimeError (read_problem_message artifact_uri (RuntimeError m))"
| "reading_handler artifact_uri err = err"

definition download_and_load ::
    "('m, 'c, 'w) torch_env \<Rightarrow> string \<Rightarrow> string \<Rightarrow> string option \<Rightarrow> 'w \<Rightarrow> (exn + 'c) \<times> 'w" where
  "download_and_load te artifact_uri bucket gcs_blob w =
     (case TemporaryDirectory te w of
        (tmpdir, w1) \<Rightarrow>
          (let dest_file = tmpdir @ ''/deserialized_model.pt''
           in case download_to_filename te bucket gcs_blob dest_file w1 of
                (Inl err, w2) \<Rightarrow> (Inl (reading_handler artifact_uri err), cleanup te tmpdir w2)
              | (Inr u, w2) \<Rightarrow>
                  (case jit_load te dest_file w2 of
                     (Inl err, w3) \<Rightarrow>
                       (Inl (reading_handler artifact_uri err), cleanup te tmpdir w3)
                   | (Inr loaded_compiled_custom_model, w3) \<Rightarrow>
                       (Inr loaded_compiled_custom_model, cleanup te tmpdir w3))))"

definition deserialize_remote_model ::
    "('m, 'c, 'w) torch_env \<Rightarrow> string \<Rightarrow> 'w \<Rightarrow> (exn + 'c) \<times> 'w" where
  "deserialize_remote_model te artifact_uri w =
     (if take 6 artifact_uri \<noteq> ''gs://'' then jit_load te artifact_uri w
      else
        (let (gcs_bucket, gcs_blob) = extract_bucket_and_prefix_from_gcs_path te artifact_uri
         in case storage_Client te of
              Some e \<Rightarrow> (Inl e, w)
            | None \<Rightarrow>
                (case client_bucket te gcs_bucket of
                   Inl e \<Rightarrow> (Inl e, w)
                 | Inr bucket \<Rightarrow>
                     (case bucket_blob te bucket gcs_blob of
                        Some e \<Rightarrow> (Inl e, w)
                      | None \<Rightarrow> download_and_load te artifact_uri bucket gcs_blob w))))"

section \<open>Concrete instances\<close>

text \<open>
  The call of the unit test: a \<^verbatim>\<open>LinearRegression\<close> whose
  \<^verbatim>\<open>fit(data, target_column, epochs, learning_rate)\<close> is called positionally with a data
  frame, a column name, an epoch count and a learning rate, under a configured staging
  bucket. \<open>bind_positional\<close> binds positional arguments to a signature of required
  parameters, which is all this call needs. As under the test's mocks, every collaborator
  returns.
\<close>

definition bind_positional :: "string list \<Rightarrow> pyval list \<Rightarrow> (string \<times> pyval) list
    \<Rightarrow> exn + (string \<times> pyval) list" where
  "bind_positional names args kwargs =
     (if kwargs = [] \<and> length args = length names then Inr (zip names args)
      else Inl (TypeError ''arguments do not match the signature''))"

definition test_frame :: dataframe where
  "test_frame = DataFrame [''feat_1'', ''feat_2'', ''target''] [[(1, 0), (1, -1), (3, -2)]]"

definition test_env :: env where
  "test_env =
     \<lparr> make_class_source = (\<lambda>m. ''class '' @ cls_name m @ ''(base.VertexModel, torch.nn.Module): ...''),
       make_source = (\<lambda>cls_source name instance_method pass_through info m.
                        Inr (cls_source @ ''; '' @ name @ ''().'' @ instance_method @ ''(...)'')),
       signature_bind = bind_positional [''data'', ''target_column'', ''epochs'', ''learning_rate''],
       method_name = ''fit'',
       now_isoformat = ''2021-08-05-10:30:00.000'',
       mkdtemp = Inr ''/tmp/tmpk3v9x'',
       write_file = (\<lambda>path text. None),
       construct_job = (\<lambda>job. None),
       run_job = (\<lambda>job replica_count. None) \<rparr>"

definition test_model :: vertex_model where
  "test_model =
     VertexModel_init ''LinearRegression'' (\<lambda>uri. VDataFrame test_frame)
       (\<lambda>folder value name. Inr (folder @ ''/'' @ name @ ''.csv''))"

definition test_world :: "string \<Rightarrow> string option \<Rightarrow> world" where
  "test_world mode bucket =
     \<lparr> obj = test_model\<lparr>training_mode := mode\<rparr>, staging_bucket = bucket, calls = [] \<rparr>"

definition test_fit :: fit_method where
  "test_fit args kwargs w = (Inr (VInt 42), w\<lparr>calls := calls w @ [Print ''fitting'']\<rparr>)"

definition test_args :: "pyval list" where
  "test_args = [VDataFrame test_frame, VStr ''target'', VInt 1, VFloat (3602879701896397, -55)]"



text \<open>
  A small file system and object store for the model serializer: a module is a number, its
  compiled form the same number, a file or a blob holds one compiled module. A location
  \<^verbatim>\<open>gs://bucket/prefix\<close> is split at the first separator after the scheme, and a bucket
  handle needs a name that is not empty.
\<close>

record test_store =
  files :: "string \<Rightarrow> nat option"
  blobs :: "string \<times> string \<Rightarrow> nat option"

definition test_torch :: "(nat, nat, test_store) torch_env" where
  "test_torch =
     \<lparr> jit_script = (\<lambda>m. Inr m),
       jit_save = (\<lambda>c p w. (Inr (), w\<lparr>files := (files w)(p := Some c)\<rparr>)),
       jit_load = (\<lambda>p w. case files w p of
                             None \<Rightarrow> (Inl (ValueError ''file does not exist''), w)
                           | Some c \<Rightarrow> (Inr c, w)),
       TemporaryDirectory = (\<lambda>w. (''/tmp/tmpq7'', w)),
       cleanup = (\<lambda>d w. w),
       print_line = (\<lambda>s w. w),
       extract_bucket_and_prefix_from_gcs_path =
         (\<lambda>uri. let rest = drop 5 uri;
                    bucket = takeWhile (\<lambda>c. c \<noteq> CHR ''/'') rest;
                    tail = dropWhile (\<lambda>c. c \<noteq> CHR ''/'') rest
                in (bucket, if tail = [] then None else Some (tl tail))),
       storage_Client = None,
       client_bucket = (\<lambda>b. if b = [] then Inl (OtherError ''IndexError'' ''string index out of range'')
                             else Inr b),
       bucket_blob = (\<lambda>b n. None),
       upload_from_filename = (\<lambda>b n p w. case files w p of
                             None \<Rightarrow> (Inl (OtherError ''FileNotFoundError'' p), w)
                           | Some c \<Rightarrow> (Inr (), w\<lparr>blobs := (blobs w)((b, n) := Some c)\<rparr>)),
       download_to_filename = (\<lambda>b n p w. case n of
                             None \<Rightarrow> (Inl (ValueError ''no blob name''), w)
                           | Some k \<Rightarrow>
                               (case blobs w (b, k) of
                                  None \<Rightarrow> (Inl (OtherError ''NotFound'' k), w)
                                | Some c \<Rightarrow> (Inr (), w\<lparr>files := (files w)(p := Some c)\<rparr>))) \<rparr>"

definition empty_store :: test_store where
  "empty_store = \<lparr> files = (\<lambda>p. None), blobs = (\<lambda>k. None) \<rparr>"

section \<open>Properties of the dispatch wrapper\<close>

subsection \<open>The two loops\<close>

lemma split_params_first_unsupported:
  "find (\<lambda>(n, v). type_of v \<notin> set (valid_types reg)) bound = Some (name, v) \<Longrightarrow>
   split_params reg bound pt sp = Inl (RuntimeError (unsupported_message reg (type_of v) name))"
  by (induction bound arbitrary: pt sp) (auto split: if_splits)

lemma set_update_subset: "set (AList.update k v al) \<subseteq> insert (k, v) (set al)"
  by (induction al) auto

lemma split_params_supported:
  "list_all (\<lambda>(n, v). type_of v \<in> set (valid_types reg)) bound \<Longrightarrow>
   list_all (\<lambda>(n, v). type_of v \<in> set (map fst reg)) sp \<Longrightarrow>
   \<exists>pt' sp'. split_params reg bound pt sp = Inr (pt', sp')
      \<and> list_all (\<lambda>(n, v). type_of v \<in> set (map fst reg)) sp'
      \<and> set sp' \<subseteq> set sp \<union> set bound"
proof (induction bound arbitrary: pt sp)
  case Nil
  then show ?case by simp
next
  case (Cons a bound)
  obtain n v where a: "a = (n, v)" by (cases a)
  show ?case
  proof (cases "type_of v \<in> set (map fst reg)")
    case True
    with Cons.prems a
    have "list_all (\<lambda>(n, v). type_of v \<in> set (map fst reg)) (AList.update n v sp)"
      using set_update_subset [of n v sp] by (auto simp: list_all_iff)
    from Cons.IH [OF _ this, of pt] Cons.prems
    obtain pt' sp' where
      "split_params reg bound pt (AList.update n v sp) = Inr (pt', sp')"
      "list_all (\<lambda>(n, v). type_of v \<in> set (map fst reg)) sp'"
      "set sp' \<subseteq> set (AList.update n v sp) \<union> set bound" by auto
    with True Cons.prems a set_update_subset [of n v sp] show ?thesis by auto
  next
    case False
    from Cons.IH [OF _ Cons.prems(2), of "AList.update n v pt"] Cons.prems
    obtain pt' sp' where
      "split_params reg bound (AList.update n v pt) sp = Inr (pt', sp')"
      "list_all (\<lambda>(n, v). type_of v \<in> set (map fst reg)) sp'"
      "set sp' \<subseteq> set sp \<union> set bound" by auto
    with False Cons.prems a show ?thesis by auto
  qed
qed

lemma jobs_constructed_append [simp]:
  "jobs_constructed (xs @ ys) = jobs_constructed xs @ jobs_constructed ys"
  by (simp add: jobs_constructed_def)

lemma jobs_run_append [simp]: "jobs_run (xs @ ys) = jobs_run xs @ jobs_run ys"
  by (simp add: jobs_run_def)

lemma serialize_params_extends:
  "serialize_params reg folder pt sp info log = (r, log') \<Longrightarrow>
   \<exists>extra. log' = log @ extra \<and> jobs_constructed extra = [] \<and> jobs_run extra = []"
proof (induction sp arbitrary: info log)
  case Nil
  then show ?case by (simp add: jobs_constructed_def jobs_run_def)
next
  case (Cons a sp)
  obtain n v where a: "a = (n, v)" by (cases a)
  show ?case
  proof (cases "map_of reg (type_of v)")
    case None
    with Cons.prems a show ?thesis by (simp add: jobs_constructed_def jobs_run_def)
  next
    case (Some p)
    obtain d s where p: "p = (d, s)" by (cases p)
    show ?thesis
    proof (cases "s folder v n")
      case (Inl e)
      with Cons.prems a Some p show ?thesis
        by (auto simp: jobs_constructed_def jobs_run_def)
    next
      case (Inr uri)
      show ?thesis
      proof (cases pt)
        case None
        with Cons.prems a Some p Inr show ?thesis
          by (auto simp: jobs_constructed_def jobs_run_def)
      next
        case (Some t)
        let ?log = "(log @ [Serializer_call folder v n]) @ [Logger_info (serialized_message n t uri)]"
        from Cons.prems a \<open>map_of reg (type_of v) = Some p\<close> p Inr Some
        have "serialize_params reg folder pt sp (AList.update n (uri, type_of v) info) ?log = (r, log')"
          by simp
        from Cons.IH [OF this] obtain extra where
          "log' = ?log @ extra" "jobs_constructed extra = []" "jobs_run extra = []" by blast
        then show ?thesis
          by (auto simp: jobs_constructed_def jobs_run_def
              intro!: exI [of _ "[Serializer_call folder v n, Logger_info (serialized_message n t uri)] @ extra"])
      qed
    qed
  qed
qed

lemma serialize_params_returns:
  "list_all (\<lambda>(n, v). \<exists>d s uri. map_of reg (type_of v) = Some (d, s) \<and> s folder v n = Inr uri) sp \<Longrightarrow>
   (sp = [] \<or> pt \<noteq> None) \<Longrightarrow>
   \<exists>info'. fst (serialize_params reg folder pt sp info log) = Inr info'"
proof (induction sp arbitrary: info log)
  case Nil
  show ?case by simp
next
  case (Cons a sp)
  obtain n v where a: "a = (n, v)" by (cases a)
  from Cons.prems a obtain d s uri where
    m: "map_of reg (type_of v) = Some (d, s)" and u: "s folder v n = Inr uri" by auto
  from Cons.prems obtain t where t: "pt = Some t" by auto
  then have "sp = [] \<or> pt \<noteq> None" by simp
  from Cons.IH [OF _ this] Cons.prems show ?case using a m u t by simp
qed

subsection \<open>The remote path\<close>

lemma set_valid_types: "set (valid_types reg) = {TInt, TFloat, TStr} \<union> fst ` set reg"
  by (auto simp: valid_types_def)

lemma find_unsupported:
  "(n0, v0) \<in> set bound \<Longrightarrow> type_of v0 \<notin> {TInt, TFloat, TStr} \<union> fst ` set reg \<Longrightarrow>
   \<exists>name v. find (\<lambda>(n, v). type_of v \<notin> set (valid_types reg)) bound = Some (name, v)"
  by (cases "find (\<lambda>(n, v). type_of v \<notin> set (valid_types reg)) bound")
     (auto simp: find_None_iff set_valid_types)

lemma remote_dispatch_unsupported:
  "signature_bind env args kwargs = Inr bound \<Longrightarrow>
   find (\<lambda>(n, v). type_of v \<notin> set (valid_types (data_serialization_mapping (obj w)))) bound
     = Some (name, v) \<Longrightarrow>
   remote_dispatch env args kwargs w =
     (Inl (RuntimeError (unsupported_message (data_serialization_mapping (obj w)) (type_of v) name)), w)"
  by (simp add: remote_dispatch_def split_params_first_unsupported)

lemma all_supported_split:
  assumes "\<forall>(n, v) \<in> set bound. type_of v \<in> {TInt, TFloat, TStr} \<union> fst ` set reg"
  shows "\<exists>pt sp. split_params reg bound [] [] = Inr (pt, sp)
            \<and> list_all (\<lambda>(n, v). type_of v \<in> set (map fst reg)) sp
            \<and> set sp \<subseteq> set bound"
proof -
  from assms have "list_all (\<lambda>(n, v). type_of v \<in> set (valid_types reg)) bound"
    by (auto simp: list_all_iff set_valid_types)
  from split_params_supported [OF this, of "[]" "[]"] show ?thesis by auto
qed

lemma remote_dispatch_no_bucket:
  assumes "signature_bind env args kwargs = Inr bound"
    and "\<forall>(n, v) \<in> set bound. type_of v \<in> {TInt, TFloat, TStr} \<union> fst ` set (data_serialization_mapping (obj w))"
    and "staging_bucket w = None"
  shows "remote_dispatch env args kwargs w = (Inl (RuntimeError staging_bucket_message), w)"
proof -
  from all_supported_split [OF assms(2)] obtain pt sp
    where "split_params (data_serialization_mapping (obj w)) bound [] [] = Inr (pt, sp)" by blast
  with assms(1,3) show ?thesis by (simp add: remote_dispatch_def)
qed

lemma train_in_tempdir_returns:
  assumes "mkdtemp env = Inr tmpdirname"
    and "make_source env training_source (cls_name (obj w)) (method_name env) pt info (obj w)
           = Inr script"
    and "write_file env (tmpdirname @ ''/training_script.py'') script = None"
    and "construct_job env (new_training_job (tmpdirname @ ''/training_script.py'')) = None"
    and "run_job env (new_training_job (tmpdirname @ ''/training_script.py'')) 1 = None"
  shows "train_in_tempdir env training_source pt info log1 w =
           (Inr VNone,
            w\<lparr> obj := (obj w)\<lparr>training_job_attr :=
                         Some (new_training_job (tmpdirname @ ''/training_script.py''))\<rparr>,
               calls := log1 @
                 [TemporaryDirectory_enter tmpdirname,
                  File_write (tmpdirname @ ''/training_script.py'') script,
                  CustomTrainingJob_init (new_training_job (tmpdirname @ ''/training_script.py'')),
                  CustomTrainingJob_run (new_training_job (tmpdirname @ ''/training_script.py'')) 1,
                  TemporaryDirectory_exit tmpdirname] \<rparr>)"
  using assms by (simp add: train_in_tempdir_def Let_def)

lemma remote_dispatch_submits:
  assumes "signature_bind env args kwargs = Inr bound"
    and "\<forall>(n, v) \<in> set bound. type_of v \<in> {TInt, TFloat, TStr} \<union> fst ` set (data_serialization_mapping (obj w))"
    and "staging_bucket w = Some bucket"
    and "\<forall>(n, v) \<in> set bound. \<forall>d s.
           map_of (data_serialization_mapping (obj w)) (type_of v) = Some (d, s) \<longrightarrow>
           (\<exists>uri. s (bucket @ ''/vertex_model_run_'' @ now_isoformat env
                       @ ''/serialized_input_parameters'') v n = Inr uri)"
    and "mkdtemp env = Inr tmpdirname"
    and "\<forall>pt info. \<exists>script. make_source env (make_class_source env (obj w)) (cls_name (obj w))
                              (method_name env) pt info (obj w) = Inr script"
    and "\<forall>script. write_file env (tmpdirname @ ''/training_script.py'') script = None"
    and "construct_job env (new_training_job (tmpdirname @ ''/training_script.py'')) = None"
    and "run_job env (new_training_job (tmpdirname @ ''/training_script.py'')) 1 = None"
  shows "\<exists>new. remote_dispatch env args kwargs w =
           (Inr VNone,
            w\<lparr> obj := (obj w)\<lparr>training_job_attr :=
                         Some (new_training_job (tmpdirname @ ''/training_script.py''))\<rparr>,
               calls := calls w @ new \<rparr>)
         \<and> jobs_constructed new = [new_training_job (tmpdirname @ ''/training_script.py'')]
         \<and> jobs_run new = [(new_training_job (tmpdirname @ ''/training_script.py''), 1)]"
proof -
  let ?reg = "data_serialization_mapping (obj w)"
  let ?folder = "bucket @ ''/vertex_model_run_'' @ now_isoformat env @ ''/serialized_input_parameters''"
  let ?pt = "if bound = [] then None else Some (type_of (snd (last bound)))"
  let ?job = "new_training_job (tmpdirname @ ''/training_script.py'')"
  let ?log0 = "calls w @ [Print ?folder]"
  from all_supported_split [OF assms(2)] obtain pt sp
    where sp: "split_params ?reg bound [] [] = Inr (pt, sp)"
      and ok: "list_all (\<lambda>(n, v). type_of v \<in> set (map fst ?reg)) sp"
      and sub: "set sp \<subseteq> set bound" by blast
  have "list_all (\<lambda>(n, v). \<exists>d s uri. map_of ?reg (type_of v) = Some (d, s)
                                 \<and> s ?folder v n = Inr uri) sp"
    unfolding list_all_iff
  proof
    fix p assume p: "p \<in> set sp"
    obtain n v where nv: "p = (n, v)" by (cases p)
    from ok p nv have "type_of v \<in> set (map fst ?reg)" by (auto simp: list_all_iff)
    then obtain d s where m: "map_of ?reg (type_of v) = Some (d, s)"
      by (cases "map_of ?reg (type_of v)") (auto simp: map_of_eq_None_iff)
    from p sub nv have "(n, v) \<in> set bound" by auto
    with assms(4) m obtain uri where "s ?folder v n = Inr uri" by blast
    with m nv show "case p of (n, v) \<Rightarrow> \<exists>d s uri. map_of ?reg (type_of v) = Some (d, s)
                                 \<and> s ?folder v n = Inr uri" by simp
  qed
  moreover from sub have "sp = [] \<or> ?pt \<noteq> None" by auto
  ultimately obtain info where
    f: "fst (serialize_params ?reg ?folder ?pt sp [] ?log0) = Inr info"
    using serialize_params_returns by blast
  then obtain log1 where ser: "serialize_params ?reg ?folder ?pt sp [] ?log0 = (Inr info, log1)"
    by (cases "serialize_params ?reg ?folder ?pt sp [] ?log0") auto
  from serialize_params_extends [OF ser] obtain extra where
    l: "log1 = ?log0 @ extra" and nc: "jobs_constructed extra = []" and nr: "jobs_run extra = []"
    by blast
  from assms(6) obtain script where
    src: "make_source env (make_class_source env (obj w)) (cls_name (obj w)) (method_name env)
            pt info (obj w) = Inr script" by blast
  from assms(7) have wr: "write_file env (tmpdirname @ ''/training_script.py'') script = None"
    by blast
  let ?new = "[Print ?folder] @ extra @
              [TemporaryDirectory_enter tmpdirname,
               File_write (tmpdirname @ ''/training_script.py'') script,
               CustomTrainingJob_init ?job, CustomTrainingJob_run ?job 1,
               TemporaryDirectory_exit tmpdirname]"
  have "remote_dispatch env args kwargs w =
          (Inr VNone, w\<lparr> obj := (obj w)\<lparr>training_job_attr := Some ?job\<rparr>, calls := calls w @ ?new \<rparr>)"
    using assms(1,3) sp ser l
      train_in_tempdir_returns [OF assms(5) src wr assms(8,9), of log1]
    by (simp add: remote_dispatch_def submit_job_def Let_def)
  moreover have "jobs_constructed ?new = [?job]"
    using nc by (simp add: jobs_constructed_def)
  moreover have "jobs_run ?new = [(?job, 1)]"
    using nr by (simp add: jobs_run_def)
  ultimately show ?thesis by blast
qed

subsection \<open>The claims on the wrapper\<close>

text \<open>
  C1. In remote mode (any mode other than \<^verbatim>\<open>"local"\<close>), when some bound argument has a
  runtime type outside \<^verbatim>\<open>int\<close>, \<^verbatim>\<open>float\<close>, \<^verbatim>\<open>str\<close> and the keys of the registry,
  the call raises a \<^verbatim>\<open>RuntimeError\<close> whose text gives the type and the name of the first
  such argument, in the order of the signature, and the list of supported types. The world
  is the one the call started in: no serializer has run, no script was rendered or written,
  no job was constructed.
\<close>

theorem unsupported_argument_raises:
  assumes "training_mode (obj w) \<noteq> ''local''"
    and "signature_bind env args kwargs = Inr bound"
    and "(n0, v0) \<in> set bound"
    and "type_of v0 \<notin> {TInt, TFloat, TStr} \<union> fst ` set (data_serialization_mapping (obj w))"
  shows "\<exists>name v.
           find (\<lambda>(n, v). type_of v \<notin> {TInt, TFloat, TStr} \<union> fst ` set (data_serialization_mapping (obj w)))
             bound = Some (name, v)
         \<and> vertex_fit_function_wrapper env method args kwargs w =
             (Inl (RuntimeError
                (str_type (type_of v) @ '' not supported. parameter_name = '' @ name
                 @ ''. The only supported types are ''
                 @ str_type_list ([TInt, TFloat, TStr] @ map fst (data_serialization_mapping (obj w))))),
              w)"
proof -
  from find_unsupported [OF assms(3,4)] obtain name v
    where f: "find (\<lambda>(n, v). type_of v \<notin> set (valid_types (data_serialization_mapping (obj w)))) bound
                = Some (name, v)" by blast
  from remote_dispatch_unsupported [OF assms(2) f] assms(1)
  have "vertex_fit_function_wrapper env method args kwargs w =
          (Inl (RuntimeError (unsupported_message (data_serialization_mapping (obj w)) (type_of v) name)), w)"
    by (simp add: vertex_fit_function_wrapper_def)
  with f show ?thesis
    by (simp add: unsupported_message_def valid_types_def set_valid_types)
qed

theorem unsupported_argument_raises_witness:
  "training_mode (obj (test_world ''cloud'' (Some ''gs://test-staging-bucket''))) \<noteq> ''local''
   \<and> signature_bind test_env [VDataFrame test_frame, VList [VStr ''target''], VInt 1, VFloat (1, -1)] []
       = Inr [(''data'', VDataFrame test_frame), (''target_column'', VList [VStr ''target'']),
              (''epochs'', VInt 1), (''learning_rate'', VFloat (1, -1))]
   \<and> vertex_fit_function_wrapper test_env test_fit
        [VDataFrame test_frame, VList [VStr ''target''], VInt 1, VFloat (1, -1)] []
        (test_world ''cloud'' (Some ''gs://test-staging-bucket''))
      = (Inl (RuntimeError (''<class 'list'> not supported. parameter_name = target_column. ''
            @ ''The only supported types are [<class 'int'>, <class 'float'>, <class 'str'>, ''
            @ ''<class 'pandas.core.frame.DataFrame'>]'')),
         test_world ''cloud'' (Some ''gs://test-staging-bucket''))"
proof -
  let ?w = "test_world ''cloud'' (Some ''gs://test-staging-bucket'')"
  let ?args = "[VDataFrame test_frame, VList [VStr ''target''], VInt 1, VFloat (1, -1)]"
  let ?bound = "[(''data'', VDataFrame test_frame), (''target_column'', VList [VStr ''target'']),
              (''epochs'', VInt 1), (''learning_rate'', VFloat (1, -1))]"
  have m: "training_mode (obj ?w) \<noteq> ''local''"
    by (simp add: test_world_def)
  have b: "signature_bind test_env ?args [] = Inr ?bound"
    by (simp add: test_env_def bind_positional_def)
  have i: "(''target_column'', VList [VStr ''target'']) \<in> set ?bound" by simp
  have r: "data_serialization_mapping (obj ?w) = data_serialization_mapping test_model"
    by (simp add: test_world_def)
  have k: "fst ` set (data_serialization_mapping (obj ?w)) = {TDataFrame}"
    by (simp add: test_world_def test_model_def VertexModel_init_def)
  have mk: "map fst (data_serialization_mapping (obj ?w)) = [TDataFrame]"
    by (simp add: test_world_def test_model_def VertexModel_init_def)
  have u: "type_of (VList [VStr ''target'']) \<notin> {TInt, TFloat, TStr} \<union> fst ` set (data_serialization_mapping (obj ?w))"
    unfolding k by simp
  from unsupported_argument_raises [OF m b i u, of test_fit] obtain name v where
    f: "find (\<lambda>(n, v). type_of v \<notin> {TInt, TFloat, TStr} \<union> fst ` set (data_serialization_mapping (obj ?w)))
             ?bound = Some (name, v)"
    and e: "vertex_fit_function_wrapper test_env test_fit ?args [] ?w =
             (Inl (RuntimeError
                (str_type (type_of v) @ '' not supported. parameter_name = '' @ name
                 @ ''. The only supported types are ''
                 @ str_type_list ([TInt, TFloat, TStr] @ map fst (data_serialization_mapping (obj ?w))))),
              ?w)" by blast
  from f have nv: "name = ''target_column''" "v = VList [VStr ''target'']"
    unfolding k by simp_all
  show ?thesis using m b e unfolding nv mk
    by (simp add: str_type_def str_type_list_def quoted_def)
qed

text \<open>
  C2. In remote mode, when every bound argument has a supported type and the configured
  staging bucket is \<^verbatim>\<open>None\<close>, the call raises the \<^verbatim>\<open>RuntimeError\<close> that tells the user
  to set the staging bucket with \<^verbatim>\<open>aiplatform.init\<close>, and the world is the one the call
  started in: no serializer has been invoked.
\<close>

theorem missing_staging_bucket_raises:
  assumes "training_mode (obj w) \<noteq> ''local''"
    and "signature_bind env args kwargs = Inr bound"
    and "\<forall>(n, v) \<in> set bound.
           type_of v \<in> {TInt, TFloat, TStr} \<union> fst ` set (data_serialization_mapping (obj w))"
    and "staging_bucket w = None"
  shows "vertex_fit_function_wrapper env method args kwargs w =
           (Inl (RuntimeError staging_bucket_message), w)"
  using remote_dispatch_no_bucket [OF assms(2,3,4)] assms(1)
  by (simp add: vertex_fit_function_wrapper_def)

lemma test_bound:
  "signature_bind test_env test_args [] =
     Inr [(''data'', VDataFrame test_frame), (''target_column'', VStr ''target''),
          (''epochs'', VInt 1), (''learning_rate'', VFloat (3602879701896397, -55))]"
  by (simp add: test_env_def bind_positional_def test_args_def)

lemma test_registry_keys:
  "fst ` set (data_serialization_mapping (obj (test_world mode bucket))) = {TDataFrame}"
  by (simp add: test_world_def test_model_def VertexModel_init_def)

lemma test_mode: "training_mode (obj (test_world mode bucket)) = mode"
  by (simp add: test_world_def)

lemma test_bucket: "staging_bucket (test_world mode bucket) = bucket"
  by (simp add: test_world_def)

lemma test_supported:
  "\<forall>(n, v) \<in> set [(''data'', VDataFrame test_frame), (''target_column'', VStr ''target''),
          (''epochs'', VInt 1), (''learning_rate'', VFloat (3602879701896397, -55))].
     type_of v \<in> {TInt, TFloat, TStr} \<union> fst ` set (data_serialization_mapping (obj (test_world mode bucket)))"
  unfolding test_registry_keys by simp

theorem missing_staging_bucket_raises_witness:
  "training_mode (obj (test_world ''cloud'' None)) \<noteq> ''local''
   \<and> staging_bucket (test_world ''cloud'' None) = None
   \<and> vertex_fit_function_wrapper test_env test_fit test_args [] (test_world ''cloud'' None) =
       (Inl (RuntimeError (''Staging bucket must be set to run training in cloud mode: ''
           @ ''`aiplatform.init(staging_bucket='gs://my/staging/bucket')`'')),
        test_world ''cloud'' None)"
proof -
  have m: "training_mode (obj (test_world ''cloud'' None)) \<noteq> ''local''"
    by (simp add: test_mode)
  from missing_staging_bucket_raises [OF m test_bound test_supported test_bucket, of test_fit] m
  show ?thesis by (simp add: test_bucket staging_bucket_message_def)
qed

text \<open>
  C4. When \<^verbatim>\<open>training_mode\<close> is \<^verbatim>\<open>"local"\<close>, the wrapped call is the call of the user's
  method on the same arguments: the same result (value or exception) and the same world
  afterwards, so the wrapper itself serializes nothing, stores nothing and submits nothing.
\<close>

theorem local_mode_calls_method:
  assumes "training_mode (obj w) = ''local''"
  shows "vertex_fit_function_wrapper env method args kwargs w = method args kwargs w"
  using assms by (simp add: vertex_fit_function_wrapper_def)

theorem local_mode_calls_method_witness:
  "training_mode (obj (test_world ''local'' None)) = ''local''
   \<and> vertex_fit_function_wrapper test_env test_fit test_args [] (test_world ''local'' None)
       = test_fit test_args [] (test_world ''local'' None)
   \<and> fst (vertex_fit_function_wrapper test_env test_fit test_args [] (test_world ''local'' None))
       = Inr (VInt 42)
   \<and> calls (snd (vertex_fit_function_wrapper test_env test_fit test_args [] (test_world ''local'' None)))
       = [Print ''fitting'']"
proof -
  have m: "training_mode (obj (test_world ''local'' None)) = ''local''"
    by (simp add: test_mode)
  from local_mode_calls_method [OF m, of test_env test_fit test_args "[]"] m
  show ?thesis by (simp add: test_fit_def test_world_def)
qed

text \<open>
  C5. Any \<^verbatim>\<open>training_mode\<close> other than the exact string \<^verbatim>\<open>"local"\<close>, \<^verbatim>\<open>"cloud"\<close> or
  not, takes the remote path, whatever the user's method is.
\<close>

theorem other_modes_dispatch_remotely:
  assumes "training_mode (obj w) \<noteq> ''local''"
  shows "vertex_fit_function_wrapper env method args kwargs w = remote_dispatch env args kwargs w"
  using assms by (simp add: vertex_fit_function_wrapper_def)

theorem other_modes_dispatch_remotely_witness:
  "training_mode (obj (test_world ''Local'' None)) \<noteq> ''local''
   \<and> vertex_fit_function_wrapper test_env test_fit test_args [] (test_world ''Local'' None)
       = remote_dispatch test_env test_args [] (test_world ''Local'' None)
   \<and> vertex_fit_function_wrapper test_env test_fit test_args [] (test_world ''Local'' None)
       \<noteq> test_fit test_args [] (test_world ''Local'' None)"
proof -
  have m: "training_mode (obj (test_world ''Local'' None)) \<noteq> ''local''"
    by (simp add: test_mode)
  have "remote_dispatch test_env test_args [] (test_world ''Local'' None) =
          (Inl (RuntimeError staging_bucket_message), test_world ''Local'' None)"
    by (rule remote_dispatch_no_bucket [OF test_bound test_supported test_bucket])
  with other_modes_dispatch_remotely [OF m, of test_env test_fit test_args "[]"] m
  show ?thesis by (simp add: test_fit_def)
qed

text \<open>
  C9. When the remote path raises because of an unsupported argument type or because the
  staging bucket is not set, the world after the call is the world before it: the log of
  calls has no new entry (no serializer, no script file, no job) and
  \<^verbatim>\<open>_training_job\<close> is as it was.
\<close>

theorem remote_failure_leaves_world_unchanged:
  assumes "training_mode (obj w) \<noteq> ''local''"
    and "signature_bind env args kwargs = Inr bound"
    and "(\<exists>(n, v) \<in> set bound.
            type_of v \<notin> {TInt, TFloat, TStr} \<union> fst ` set (data_serialization_mapping (obj w)))
         \<or> staging_bucket w = None"
  shows "\<exists>m. fst (vertex_fit_function_wrapper env method args kwargs w) = Inl (RuntimeError m)
           \<and> snd (vertex_fit_function_wrapper env method args kwargs w) = w
           \<and> calls (snd (vertex_fit_function_wrapper env method args kwargs w)) = calls w
           \<and> training_job_attr (obj (snd (vertex_fit_function_wrapper env method args kwargs w)))
               = training_job_attr (obj w)"
proof (cases "\<exists>(n, v) \<in> set bound.
            type_of v \<notin> {TInt, TFloat, TStr} \<union> fst ` set (data_serialization_mapping (obj w))")
  case True
  then obtain n0 v0 where "(n0, v0) \<in> set bound"
    "type_of v0 \<notin> {TInt, TFloat, TStr} \<union> fst ` set (data_serialization_mapping (obj w))" by auto
  from find_unsupported [OF this] obtain name v where
    "find (\<lambda>(n, v). type_of v \<notin> set (valid_types (data_serialization_mapping (obj w)))) bound
       = Some (name, v)" by blast
  from remote_dispatch_unsupported [OF assms(2) this] assms(1) show ?thesis
    by (simp add: vertex_fit_function_wrapper_def)
next
  case False
  with assms(3) have b: "staging_bucket w = None" by blast
  from False have "\<forall>(n, v) \<in> set bound.
           type_of v \<in> {TInt, TFloat, TStr} \<union> fst ` set (data_serialization_mapping (obj w))"
    by auto
  from remote_dispatch_no_bucket [OF assms(2) this b] assms(1) show ?thesis
    by (simp add: vertex_fit_function_wrapper_def)
qed

theorem remote_failure_leaves_world_unchanged_witness:
  "training_mode (obj (test_world ''cloud'' (Some ''gs://test-staging-bucket''))) \<noteq> ''local''
   \<and> type_of (VBool True) \<notin> {TInt, TFloat, TStr}
         \<union> fst ` set (data_serialization_mapping (obj (test_world ''cloud'' (Some ''gs://test-staging-bucket''))))
   \<and> isl (fst (vertex_fit_function_wrapper test_env test_fit
                  [VDataFrame test_frame, VStr ''target'', VBool True, VFloat (1, -1)] []
                  (test_world ''cloud'' (Some ''gs://test-staging-bucket''))))
   \<and> calls (snd (vertex_fit_function_wrapper test_env test_fit
                  [VDataFrame test_frame, VStr ''target'', VBool True, VFloat (1, -1)] []
                  (test_world ''cloud'' (Some ''gs://test-staging-bucket'')))) = []
   \<and> training_job_attr (obj (snd (vertex_fit_function_wrapper test_env test_fit
                  [VDataFrame test_frame, VStr ''target'', VBool True, VFloat (1, -1)] []
                  (test_world ''cloud'' (Some ''gs://test-staging-bucket''))))) = None"
proof -
  let ?w = "test_world ''cloud'' (Some ''gs://test-staging-bucket'')"
  let ?args = "[VDataFrame test_frame, VStr ''target'', VBool True, VFloat (1, -1)]"
  let ?bound = "[(''data'', VDataFrame test_frame), (''target_column'', VStr ''target''),
                 (''epochs'', VBool True), (''learning_rate'', VFloat (1, -1))]"
  have m: "training_mode (obj ?w) \<noteq> ''local''" by (simp add: test_mode)
  have b: "signature_bind test_env ?args [] = Inr ?bound"
    by (simp add: test_env_def bind_positional_def)
  have u: "type_of (VBool True) \<notin> {TInt, TFloat, TStr} \<union> fst ` set (data_serialization_mapping (obj ?w))"
    unfolding test_registry_keys by simp
  then have h: "(\<exists>(n, v) \<in> set ?bound.
            type_of v \<notin> {TInt, TFloat, TStr} \<union> fst ` set (data_serialization_mapping (obj ?w)))
         \<or> staging_bucket ?w = None" by simp
  from remote_failure_leaves_world_unchanged [OF m b h, of test_fit] obtain msg where
    "fst (vertex_fit_function_wrapper test_env test_fit ?args [] ?w) = Inl (RuntimeError msg)"
    "calls (snd (vertex_fit_function_wrapper test_env test_fit ?args [] ?w)) = calls ?w"
    "training_job_attr (obj (snd (vertex_fit_function_wrapper test_env test_fit ?args [] ?w)))
       = training_job_attr (obj ?w)" by blast
  with m u show ?thesis
    by (simp add: test_world_def test_model_def VertexModel_init_def)
qed

text \<open>The collaborators of the test instance return.\<close>

lemma test_serializers_return:
  "\<forall>(n, v) \<in> set [(''data'', VDataFrame test_frame), (''target_column'', VStr ''target''),
          (''epochs'', VInt 1), (''learning_rate'', VFloat (3602879701896397, -55))]. \<forall>d s.
     map_of (data_serialization_mapping (obj (test_world mode bucket))) (type_of v) = Some (d, s) \<longrightarrow>
     (\<exists>uri. s folder v n = Inr uri)"
  by (simp add: test_world_def test_model_def VertexModel_init_def)

lemma test_make_source_returns:
  "\<forall>pt info. \<exists>script. make_source test_env training_source name (method_name test_env)
                           pt info m = Inr script"
  by (simp add: test_env_def)

lemma test_remote_dispatch:
  "\<exists>new. remote_dispatch test_env test_args [] (test_world mode (Some bucket)) =
           (Inr VNone,
            (test_world mode (Some bucket))
              \<lparr> obj := (obj (test_world mode (Some bucket)))\<lparr>training_job_attr :=
                         Some (new_training_job (''/tmp/tmpk3v9x'' @ ''/training_script.py''))\<rparr>,
                calls := calls (test_world mode (Some bucket)) @ new \<rparr>)
         \<and> jobs_constructed new = [new_training_job (''/tmp/tmpk3v9x'' @ ''/training_script.py'')]
         \<and> jobs_run new = [(new_training_job (''/tmp/tmpk3v9x'' @ ''/training_script.py''), 1)]"
proof (rule remote_dispatch_submits [OF test_bound test_supported test_bucket
        test_serializers_return _ test_make_source_returns])
  show "mkdtemp test_env = Inr ''/tmp/tmpk3v9x''" by (simp add: test_env_def)
  show "\<forall>script. write_file test_env (''/tmp/tmpk3v9x'' @ ''/training_script.py'') script = None"
    by (simp add: test_env_def)
  show "construct_job test_env (new_training_job (''/tmp/tmpk3v9x'' @ ''/training_script.py'')) = None"
    by (simp add: test_env_def)
  show "run_job test_env (new_training_job (''/tmp/tmpk3v9x'' @ ''/training_script.py'')) 1 = None"
    by (simp add: test_env_def)
qed




text \<open>
  C10. On the remote path, a call that returns returns \<^verbatim>\<open>None\<close>, whatever the user's
  method returns (the method is not consulted).
\<close>

theorem remote_path_returns_None:
  assumes "training_mode (obj w) \<noteq> ''local''"
    and "fst (vertex_fit_function_wrapper env method args kwargs w) = Inr v"
  shows "v = VNone"
  using assms
  by (auto simp: vertex_fit_function_wrapper_def remote_dispatch_def submit_job_def
      train_in_tempdir_def Let_def
      split: sum.splits option.splits prod.splits)

theorem remote_path_returns_None_witness:
  "training_mode (obj (test_world ''cloud'' (Some ''gs://test-staging-bucket''))) \<noteq> ''local''
   \<and> fst (test_fit test_args [] (test_world ''cloud'' (Some ''gs://test-staging-bucket'')))
        = Inr (VInt 42)
   \<and> fst (vertex_fit_function_wrapper test_env test_fit test_args []
            (test_world ''cloud'' (Some ''gs://test-staging-bucket''))) = Inr VNone"
proof -
  let ?w = "test_world ''cloud'' (Some ''gs://test-staging-bucket'')"
  have m: "training_mode (obj ?w) \<noteq> ''local''" by (simp add: test_mode)
  from test_remote_dispatch [of "''cloud''" "''gs://test-staging-bucket''"]
  obtain v where r: "fst (vertex_fit_function_wrapper test_env test_fit test_args [] ?w) = Inr v"
    using m by (auto simp: vertex_fit_function_wrapper_def)
  from remote_path_returns_None [OF m r] r m show ?thesis
    by (simp add: test_fit_def)
qed

section \<open>Properties of the model serializer\<close>

lemma slice_is_prefix_iff: "take 6 artifact_uri = ''gs://'' \<longleftrightarrow> artifact_uri = ''gs://''"
proof
  assume a: "take 6 artifact_uri = ''gs://''"
  then have "length (take 6 artifact_uri) = 5" by simp
  then have "length artifact_uri = 5" by (simp add: min_def split: if_splits)
  with a show "artifact_uri = ''gs://''" by simp
qed simp

lemma long_uri_is_local: "6 \<le> length artifact_uri \<Longrightarrow> take 6 artifact_uri \<noteq> ''gs://''"
  by (auto simp: slice_is_prefix_iff)

text \<open>
  C6 says that a location starting with \<^verbatim>\<open>gs://\<close> is written through an upload and that
  the location returned is the uploaded object's. The code does otherwise: it compares the
  first six characters of the location with the five characters \<^verbatim>\<open>gs://\<close>, so every such
  location that goes on to name a bucket fails the test and is treated as a local path. The
  compiled model is saved under that text as a file name and that file name is returned;
  no temporary directory is made and nothing is uploaded.
\<close>

theorem gs_uri_naming_a_bucket_is_saved_locally:
  assumes "take 5 artifact_uri = ''gs://''" and "artifact_uri \<noteq> ''gs://''"
  shows "serialize_local_model te artifact_uri module model_type w =
           (case jit_script te module of
              Inl e \<Rightarrow> (Inl e, w)
            | Inr c \<Rightarrow>
                (case jit_save te c (artifact_uri @ ''/my_'' @ model_type @ ''_model.pth'') w of
                   (Inl e, w1) \<Rightarrow> (Inl e, w1)
                 | (Inr u, w1) \<Rightarrow> (Inr (artifact_uri @ ''/my_'' @ model_type @ ''_model.pth''), w1)))"
proof -
  from assms(2) have "take 6 artifact_uri \<noteq> ''gs://''"
    by (auto simp: slice_is_prefix_iff)
  then show ?thesis
    by (auto simp: serialize_local_model_def Let_def split: sum.splits prod.splits)
qed

theorem gs_uri_naming_a_bucket_is_saved_locally_witness:
  "take 5 ''gs://test-bucket/models'' = ''gs://''
   \<and> serialize_local_model test_torch ''gs://test-bucket/models'' 7 ''custom'' empty_store =
       (Inr ''gs://test-bucket/models/my_custom_model.pth'',
        \<lparr> files = (\<lambda>p. None)(''gs://test-bucket/models/my_custom_model.pth'' := Some 7),
          blobs = (\<lambda>k. None) \<rparr>)"
proof -
  have a: "take 5 ''gs://test-bucket/models'' = ''gs://''" by simp
  have b: "''gs://test-bucket/models'' \<noteq> ''gs://''" by simp
  from gs_uri_naming_a_bucket_is_saved_locally [OF a b, of test_torch 7 "''custom''" empty_store] a
  show ?thesis by (simp add: test_torch_def empty_store_def)
qed

text \<open>
  C7 says that a failing read is reported as an error that carries the attempted location.
  The code wraps only what is raised inside its \<^verbatim>\<open>try\<close> block, on the object-storage
  branch, and its test for that branch is the same comparison of six characters with the
  five of \<^verbatim>\<open>gs://\<close>: a location that starts with \<^verbatim>\<open>gs://\<close> and goes on to name a
  bucket is handed to \<^verbatim>\<open>torch.jit.load\<close> as a local file name, outside the \<^verbatim>\<open>try\<close>,
  and whatever that load raises reaches the caller as it is. Nothing is downloaded.
\<close>

theorem gs_uri_naming_a_bucket_is_loaded_as_a_file:
  assumes "take 5 artifact_uri = ''gs://''" and "artifact_uri \<noteq> ''gs://''"
  shows "deserialize_remote_model te artifact_uri w = jit_load te artifact_uri w"
proof -
  from assms(2) have "take 6 artifact_uri \<noteq> ''gs://''"
    by (auto simp: slice_is_prefix_iff)
  then show ?thesis
    by (simp add: deserialize_remote_model_def)
qed

theorem gs_uri_naming_a_bucket_is_loaded_as_a_file_witness:
  "take 5 ''gs://test-bucket/models/my_custom_model.pth'' = ''gs://''
   \<and> jit_load test_torch ''gs://test-bucket/models/my_custom_model.pth'' empty_store =
       (Inl (ValueError ''file does not exist''), empty_store)
   \<and> deserialize_remote_model test_torch ''gs://test-bucket/models/my_custom_model.pth'' empty_store =
       (Inl (ValueError ''file does not exist''), empty_store)
   \<and> fst (deserialize_remote_model test_torch ''gs://test-bucket/models/my_custom_model.pth''
            empty_store) \<noteq>
       Inl (RuntimeError (read_problem_message ''gs://test-bucket/models/my_custom_model.pth''
                            (ValueError ''file does not exist'')))"
proof -
  have a: "take 5 ''gs://test-bucket/models/my_custom_model.pth'' = ''gs://''" by simp
  have b: "''gs://test-bucket/models/my_custom_model.pth'' \<noteq> ''gs://''" by simp
  have l: "jit_load test_torch ''gs://test-bucket/models/my_custom_model.pth'' empty_store =
             (Inl (ValueError ''file does not exist''), empty_store)"
    by (simp add: test_torch_def empty_store_def)
  from gs_uri_naming_a_bucket_is_loaded_as_a_file [OF a b, of test_torch empty_store] a l
  show ?thesis by simp
qed

text \<open>
  C8. For a location that does not start with \<^verbatim>\<open>gs://\<close>, a save that returns is followed
  by a load, from the returned location, of a compiled module that computes what the
  original module computes. Two facts about \<^verbatim>\<open>torch.jit\<close> are taken as given: a load
  from a path returns what was last saved there, and a compiled module computes what its
  source module computes. What the repository's code adds is that the location returned is
  the path written, and that the loader sends that location to its local branch.
\<close>

theorem local_save_then_load:
  assumes "take 5 artifact_uri \<noteq> ''gs://''"
    and "serialize_local_model te artifact_uri module model_type w = (Inr location, w1)"
    and "\<And>c p v v'. jit_save te c p v = (Inr (), v') \<Longrightarrow> fst (jit_load te p v') = Inr c"
    and "\<And>c x. jit_script te module = Inr c \<Longrightarrow> run c x = forward module x"
  shows "\<exists>c. fst (deserialize_remote_model te location w1) = Inr c
           \<and> (\<forall>x. run c x = forward module x)"
proof -
  from assms(1) have loc: "take 6 artifact_uri \<noteq> ''gs://''"
    by (auto simp: slice_is_prefix_iff)
  from assms(2) obtain c where c: "jit_script te module = Inr c"
    by (cases "jit_script te module") (auto simp: serialize_local_model_def)
  let ?p = "artifact_uri @ ''/my_'' @ model_type @ ''_model.pth''"
  from assms(2) loc c have s: "jit_save te c ?p w = (Inr (), w1)" and l: "location = ?p"
    by (auto simp: serialize_local_model_def Let_def split: prod.splits sum.splits)
  have "6 \<le> length location" unfolding l by simp
  then have "take 6 location \<noteq> ''gs://''" by (rule long_uri_is_local)
  then have "deserialize_remote_model te location w1 = jit_load te location w1"
    by (simp add: deserialize_remote_model_def)
  with assms(3) [OF s] l have "fst (deserialize_remote_model te location w1) = Inr c" by simp
  with assms(4) [OF c] show ?thesis by blast
qed

theorem local_save_then_load_witness:
  "take 5 ''/models'' \<noteq> ''gs://''
   \<and> serialize_local_model test_torch ''/models'' 7 ''custom'' empty_store =
        (Inr ''/models/my_custom_model.pth'',
         empty_store\<lparr>files := (files empty_store)(''/models/my_custom_model.pth'' := Some 7)\<rparr>)
   \<and> (\<exists>c. fst (deserialize_remote_model test_torch ''/models/my_custom_model.pth''
               (empty_store\<lparr>files := (files empty_store)(''/models/my_custom_model.pth'' := Some 7)\<rparr>))
             = Inr c
          \<and> (\<forall>x::nat. c * x = 7 * x))"
proof -
  let ?w1 = "empty_store\<lparr>files := (files empty_store)(''/models/my_custom_model.pth'' := Some 7)\<rparr>"
  have a: "take 5 ''/models'' \<noteq> ''gs://''" by simp
  have b: "serialize_local_model test_torch ''/models'' 7 ''custom'' empty_store =
        (Inr ''/models/my_custom_model.pth'', ?w1)"
    by (simp add: serialize_local_model_def test_torch_def Let_def)
  have c: "\<And>c p v v'. jit_save test_torch c p v = (Inr (), v') \<Longrightarrow> fst (jit_load test_torch p v') = Inr c"
    by (auto simp: test_torch_def)
  have d: "\<And>c x. jit_script test_torch 7 = Inr c \<Longrightarrow> (\<lambda>c x. c * x) c x = (\<lambda>m x. m * x) (7::nat) (x::nat)"
    by (auto simp: test_torch_def)
  from local_save_then_load [of "''/models''" test_torch 7 "''custom''" empty_store
      "''/models/my_custom_model.pth''" ?w1 "\<lambda>c x. c * x" "\<lambda>m x. m * x", OF a b c d] a b
  show ?thesis by simp
qed

end
